theory Spec2Isabelle
  imports Main "HOL-Library.Word" "HOL-Library.Signed_Division"
begin

unbundle bit_operations_syntax

section \<open>C++ control flow: what a call can do\<close>

text \<open>
  A C++ call either returns or throws. The handlers of the sources distinguish two
  kinds of thrown value: those derived from \<open>std::exception\<close> (caught by
  \<open>catch (std::exception& e)\<close>, observed through \<open>e.what()\<close>) and everything else
  (caught by \<open>catch (...)\<close>). The classes the sources throw themselves are kept apart.
\<close>

datatype exn =
    RuntimeError string
  | RuntimeErrorWithErrno string
  | JsError string
  | StdException string
  | NonStdValue

datatype 'a outcome = Returns 'a | Throws exn

text \<open>
  \<open>catch_std x\<close> is \<open>Some (e.what())\<close> when the handler \<open>catch (std::exception& e)\<close>
  takes \<open>x\<close>, and \<open>None\<close> when only \<open>catch (...)\<close> does.
\<close>

fun catch_std :: "exn \<Rightarrow> string option" where
  "catch_std (RuntimeError w) = Some w"
| "catch_std (RuntimeErrorWithErrno w) = Some w"
| "catch_std (JsError w) = Some w"
| "catch_std (StdException w) = Some w"
| "catch_std NonStdValue = None"

text \<open>
  Dereferencing an iterator outside its range is undefined behaviour; a model function
  that can reach one answers \<open>UndefinedBehaviour\<close> there and \<open>Defined\<close> elsewhere.
\<close>

datatype 'a defined = UndefinedBehaviour | Defined 'a

section \<open>The operating system seen by DefaultFileSystem.cpp (POSIX branch)\<close>

type_synonym byte = "8 word"
type_synonym IOBuffer = "byte list"
type_synonym errno_t = nat

definition ENOENT :: errno_t where
  "ENOENT = 2"

definition EISDIR :: errno_t where
  "EISDIR = 21"

record struct_stat =
  st_mode :: "32 word"
  st_mtim_tv_sec :: "64 word"
  st_mtim_tv_nsec :: "64 word"

text \<open>
  What a path can name. A regular file has its bytes. A directory can be opened for
  reading, but a read of it delivers nothing, and a seek to its end reports an offset
  that the file system chooses. A pipe (a FIFO, and alike every stream that cannot seek)
  holds the bytes in transit; a seek on it fails.
\<close>

datatype node =
    RegularFile IOBuffer
  | Directory nat
  | Pipe IOBuffer

text \<open>
  The part of the operating system the file engine talks to: the nodes by path, the
  paths at which the system refuses an open, rename or remove (permissions, a missing
  directory, a device error) with the error number it reports, the answer of
  \<open>stat(2)\<close> for each path, the calling thread's \<open>errno\<close>, and \<open>strerror\<close>.
\<close>

record os =
  files :: "string \<Rightarrow> node option"
  refused :: "string \<Rightarrow> errno_t option"
  stat_table :: "string \<Rightarrow> errno_t + struct_stat"
  errno :: errno_t
  strerror :: "errno_t \<Rightarrow> string"

subsection \<open>std::ifstream and std::ofstream\<close>

text \<open>
  An input stream: the bytes a read can extract, the offset a seek to the end reports
  (\<open>None\<close> when the stream cannot seek), the read position and \<open>failbit\<close>. The
  constructor fails only when the open itself does: a directory and a pipe open like a
  regular file.
\<close>

record ifstream =
  stream_bytes :: IOBuffer
  end_offset :: "nat option"
  gpos :: nat
  failbit :: bool

definition ifstream_open :: "os \<Rightarrow> string \<Rightarrow> ifstream \<times> os" where
  "ifstream_open s path =
     (case refused s path of
        Some e \<Rightarrow>
          (\<lparr>stream_bytes = [], end_offset = None, gpos = 0, failbit = True\<rparr>, s\<lparr>errno := e\<rparr>)
      | None \<Rightarrow>
          (case files s path of
             None \<Rightarrow>
               (\<lparr>stream_bytes = [], end_offset = None, gpos = 0, failbit = True\<rparr>,
                s\<lparr>errno := ENOENT\<rparr>)
           | Some (RegularFile b) \<Rightarrow>
               (\<lparr>stream_bytes = b, end_offset = Some (length b), gpos = 0, failbit = False\<rparr>, s)
           | Some (Directory n) \<Rightarrow>
               (\<lparr>stream_bytes = [], end_offset = Some n, gpos = 0, failbit = False\<rparr>, s)
           | Some (Pipe b) \<Rightarrow>
               (\<lparr>stream_bytes = b, end_offset = None, gpos = 0, failbit = False\<rparr>, s)))"

text \<open>
  \<open>seekg\<close> does nothing on a failed stream and sets \<open>failbit\<close> when the seek itself
  fails; \<open>tellg\<close> answers -1 on a failed stream.
\<close>

definition seekg_end :: "ifstream \<Rightarrow> ifstream" where
  "seekg_end f =
     (if failbit f then f
      else (case end_offset f of
              None \<Rightarrow> f\<lparr>failbit := True\<rparr>
            | Some n \<Rightarrow> f\<lparr>gpos := n\<rparr>))"

definition seekg_beg :: "ifstream \<Rightarrow> ifstream" where
  "seekg_beg f =
     (if failbit f then f
      else (case end_offset f of
              None \<Rightarrow> f\<lparr>failbit := True\<rparr>
            | Some n \<Rightarrow> f\<lparr>gpos := 0\<rparr>))"

definition tellg :: "ifstream \<Rightarrow> int" where
  "tellg f = (if failbit f then - 1 else int (gpos f))"

text \<open>
  \<open>file.read(p, n)\<close> stores the bytes it could extract at the start of the target and
  sets \<open>failbit\<close> when they are fewer than \<open>n\<close>; the rest of the target keeps its
  old content.
\<close>

definition ifstream_read :: "ifstream \<Rightarrow> IOBuffer \<Rightarrow> IOBuffer \<times> ifstream" where
  "ifstream_read f target =
     (if failbit f then (target, f)
      else
        (let got = take (length target) (drop (gpos f) (stream_bytes f))
         in (got @ drop (length got) target,
             f\<lparr>gpos := gpos f + length got, failbit := length got < length target\<rparr>)))"

text \<open>
  \<open>IOBuffer data(dataSize)\<close>: a vector of \<open>dataSize\<close> zero bytes. The stream position
  -1 converts to the largest \<open>size_t\<close>, a size beyond \<open>max_size()\<close>, which the vector's
  constructor rejects with a \<open>std::length_error\<close>.
\<close>

definition new_IOBuffer :: "int \<Rightarrow> IOBuffer outcome" where
  "new_IOBuffer dataSize =
     (if dataSize < 0 then Throws (StdException ''cannot create std::vector larger than max_size()'')
      else Returns (replicate (nat dataSize) 0))"

record ofstream =
  opened_path :: string
  ofailbit :: bool

text \<open>
  Opening with \<open>std::ios_base::out\<close> creates the file or truncates it; a directory
  cannot be opened for writing, and a pipe is opened as it is.
\<close>

definition ofstream_open :: "os \<Rightarrow> string \<Rightarrow> ofstream \<times> os" where
  "ofstream_open s path =
     (case refused s path of
        Some e \<Rightarrow> (\<lparr>opened_path = path, ofailbit = True\<rparr>, s\<lparr>errno := e\<rparr>)
      | None \<Rightarrow>
          (case files s path of
             Some (Directory n) \<Rightarrow> (\<lparr>opened_path = path, ofailbit = True\<rparr>, s\<lparr>errno := EISDIR\<rparr>)
           | Some (Pipe b) \<Rightarrow> (\<lparr>opened_path = path, ofailbit = False\<rparr>, s)
           | Some (RegularFile b) \<Rightarrow>
               (\<lparr>opened_path = path, ofailbit = False\<rparr>,
                s\<lparr>files := (files s)(path \<mapsto> RegularFile [])\<rparr>)
           | None \<Rightarrow>
               (\<lparr>opened_path = path, ofailbit = False\<rparr>,
                s\<lparr>files := (files s)(path \<mapsto> RegularFile [])\<rparr>)))"

definition ofstream_write :: "ofstream \<Rightarrow> os \<Rightarrow> IOBuffer \<Rightarrow> ofstream \<times> os" where
  "ofstream_write f s bytes =
     (if ofailbit f then (f, s)
      else
        (case files s (opened_path f) of
           Some (RegularFile old) \<Rightarrow>
             (f, s\<lparr>files := (files s)(opened_path f \<mapsto> RegularFile (old @ bytes))\<rparr>)
         | Some (Pipe old) \<Rightarrow>
             (f, s\<lparr>files := (files s)(opened_path f \<mapsto> Pipe (old @ bytes))\<rparr>)
         | Some (Directory n) \<Rightarrow> (f, s)
         | None \<Rightarrow> (f, s)))"

subsection \<open>rename, remove, stat\<close>

definition rename_call :: "os \<Rightarrow> string \<Rightarrow> string \<Rightarrow> int \<times> os" where
  "rename_call s fromPath toPath =
     (case refused s fromPath of
        Some e \<Rightarrow> (- 1, s\<lparr>errno := e\<rparr>)
      | None \<Rightarrow>
          (case refused s toPath of
             Some e \<Rightarrow> (- 1, s\<lparr>errno := e\<rparr>)
           | None \<Rightarrow>
               (case files s fromPath of
                  None \<Rightarrow> (- 1, s\<lparr>errno := ENOENT\<rparr>)
                | Some b \<Rightarrow> (0, s\<lparr>files := ((files s)(fromPath := None))(toPath \<mapsto> b)\<rparr>))))"

definition remove_call :: "os \<Rightarrow> string \<Rightarrow> int \<times> os" where
  "remove_call s path =
     (case refused s path of
        Some e \<Rightarrow> (- 1, s\<lparr>errno := e\<rparr>)
      | None \<Rightarrow>
          (case files s path of
             None \<Rightarrow> (- 1, s\<lparr>errno := ENOENT\<rparr>)
           | Some b \<Rightarrow> (0, s\<lparr>files := (files s)(path := None)\<rparr>)))"

text \<open>
  \<open>stat(path, &buf)\<close> fills the caller's buffer and answers 0, or leaves the buffer as
  it was, sets \<open>errno\<close> and answers -1.
\<close>

definition stat_call :: "os \<Rightarrow> string \<Rightarrow> struct_stat \<Rightarrow> int \<times> struct_stat \<times> os" where
  "stat_call s path buf =
     (case stat_table s path of
        Inl e \<Rightarrow> (- 1, buf, s\<lparr>errno := e\<rparr>)
      | Inr st \<Rightarrow> (0, st, s))"

definition S_ISREG :: "32 word \<Rightarrow> bool" where
  "S_ISREG m = (m AND 61440 = 32768)"

definition S_ISDIR :: "32 word \<Rightarrow> bool" where
  "S_ISDIR m = (m AND 61440 = 16384)"

section \<open>DefaultFileSystemSync\<close>

text \<open>
  Modelled from the spec: the macro \<open>PATH_SEPARATOR\<close> is declared in
  DefaultFileSystem.h, which is not among the sources; the spec's examples of Resolve
  (base path "/a/b" and path "c" give "/a/b/c") fix it to the slash of the POSIX branch.
\<close>

definition PATH_SEPARATOR :: char where
  "PATH_SEPARATOR = CHR ''/''"

definition NormalizePath :: "string \<Rightarrow> string" where
  "NormalizePath path = path"

record StatResult =
  exists :: bool
  isFile :: bool
  isDirectory :: bool
  lastModified :: "64 word"

text \<open>
  Modelled from the spec: the constructor of \<open>IFileSystem::StatResult\<close> is declared in
  IFileSystem.h, which is not among the sources; the spec gives the default
  (non-existent) StatResult as all-false and zero.
\<close>

definition StatResult_default :: StatResult where
  "StatResult_default = \<lparr>exists = False, isFile = False, isDirectory = False, lastModified = 0\<rparr>"

text \<open>
  \<open>RuntimeErrorWithErrno(message)\<close> is a \<open>std::runtime_error\<close> whose text is
  \<open>message + " (" + strerror(errno) + ")"\<close>, with \<open>errno\<close> read when it is built.
\<close>

definition new_RuntimeErrorWithErrno :: "os \<Rightarrow> string \<Rightarrow> exn" where
  "new_RuntimeErrorWithErrno s message =
     RuntimeErrorWithErrno (message @ '' ('' @ strerror s (errno s) @ '')'')"

definition DefaultFileSystemSync_Read :: "os \<Rightarrow> string \<Rightarrow> IOBuffer outcome \<times> os" where
  "DefaultFileSystemSync_Read s path =
     (let (file, s1) = ifstream_open s (NormalizePath path) in
      if failbit file
      then (Throws (new_RuntimeErrorWithErrno s1 (''Failed to open '' @ path)), s1)
      else
        (let file1 = seekg_end file;
             dataSize = tellg file1;
             file2 = seekg_beg file1
         in case new_IOBuffer dataSize of
              Throws x \<Rightarrow> (Throws x, s1)
            | Returns data \<Rightarrow>
                (let (data', file3) = ifstream_read file2 data in (Returns data', s1))))"

definition DefaultFileSystemSync_Write :: "os \<Rightarrow> string \<Rightarrow> IOBuffer \<Rightarrow> unit outcome \<times> os" where
  "DefaultFileSystemSync_Write s path data =
     (let (file, s1) = ofstream_open s (NormalizePath path);
          (file1, s2) = ofstream_write file s1 data
      in (Returns (), s2))"

definition DefaultFileSystemSync_Move :: "os \<Rightarrow> string \<Rightarrow> string \<Rightarrow> unit outcome \<times> os" where
  "DefaultFileSystemSync_Move s fromPath toPath =
     (let (rc, s1) = rename_call s (NormalizePath fromPath) (NormalizePath toPath) in
      if rc \<noteq> 0
      then (Throws (new_RuntimeErrorWithErrno s1
                      (''Failed to move '' @ fromPath @ '' to '' @ toPath)), s1)
      else (Returns (), s1))"

definition DefaultFileSystemSync_Remove :: "os \<Rightarrow> string \<Rightarrow> unit outcome \<times> os" where
  "DefaultFileSystemSync_Remove s path =
     (let (rc, s1) = remove_call s (NormalizePath path) in
      if rc \<noteq> 0
      then (Throws (new_RuntimeErrorWithErrno s1 (''Failed to remove '' @ path)), s1)
      else (Returns (), s1))"

text \<open>
  The POSIX branch of Stat, with \<open>_POSIX_C_SOURCE >= 200809L\<close>: the modification time
  is \<open>tv_sec * 1000 + tv_nsec / 1000000\<close> in 64-bit signed arithmetic (the division
  truncates towards zero, the sum and product wrap). The local \<open>nativeStat\<close> is
  declared without an initialiser: its content before the call is the parameter
  \<open>uninitialised\<close>.
\<close>

definition DefaultFileSystemSync_Stat ::
    "os \<Rightarrow> struct_stat \<Rightarrow> string \<Rightarrow> StatResult outcome \<times> os" where
  "DefaultFileSystemSync_Stat s uninitialised path =
     (let result = StatResult_default;
          (failure, nativeStat, s1) = stat_call s (NormalizePath path) uninitialised
      in if failure \<noteq> 0
         then
           (if errno s1 = ENOENT then (Returns result, s1)
            else (Throws (new_RuntimeErrorWithErrno s1 (''Unable to stat '' @ path)), s1))
         else
           (Returns (result\<lparr>exists := True,
                            isFile := S_ISREG (st_mode nativeStat),
                            isDirectory := S_ISDIR (st_mode nativeStat),
                            lastModified := st_mtim_tv_sec nativeStat * 1000
                              + word_of_int (sint (st_mtim_tv_nsec nativeStat) sdiv 1000000)\<rparr>), s1))"

record DefaultFileSystemSync =
  basePath :: string

definition DefaultFileSystemSync_Resolve :: "DefaultFileSystemSync \<Rightarrow> string \<Rightarrow> string" where
  "DefaultFileSystemSync_Resolve this path =
     (if basePath this = [] then path
      else if length path \<noteq> 0 \<and> hd path \<noteq> PATH_SEPARATOR
           then basePath this @ [PATH_SEPARATOR] @ path
           else path)"

text \<open>
  \<open>*basePath.rbegin()\<close>: the last character of a non-empty string; on the empty
  string the reverse iterator has nothing to point at.
\<close>

definition rbegin_deref :: "string \<Rightarrow> char defined" where
  "rbegin_deref str = (if str = [] then UndefinedBehaviour else Defined (last str))"

definition DefaultFileSystemSync_SetBasePath ::
    "DefaultFileSystemSync \<Rightarrow> string \<Rightarrow> DefaultFileSystemSync defined" where
  "DefaultFileSystemSync_SetBasePath this path =
     (let this1 = this\<lparr>basePath := path\<rparr> in
      case rbegin_deref (basePath this1) of
        UndefinedBehaviour \<Rightarrow> UndefinedBehaviour
      | Defined c \<Rightarrow>
          (if c = PATH_SEPARATOR
           then Defined (this1\<lparr>basePath := take (length (basePath this1) - 1) (basePath this1)\<rparr>)
           else Defined this1))"

section \<open>DefaultFileSystem: the asynchronous adapter\<close>

text \<open>
  Every operation starts a detached thread that runs one lambda. The model is the run of
  that lambda: the completion callback's invocations in order, each with the arguments
  it received, and the exception that left the lambda, if one did (the thread then ends
  in \<open>std::terminate\<close>). When the thread is scheduled is not part of the model. The
  engine's method and the callback are C++ calls: each returns or throws.
\<close>

record 'r thread_run =
  invocations :: "('r \<times> string) list"
  uncaught :: "exn option"

text \<open>The two handlers: \<open>error = e.what()\<close>, or the fallback text of \<open>catch (...)\<close>.\<close>

definition caught_message :: "exn \<Rightarrow> string \<Rightarrow> string" where
  "caught_message x fallback = (case catch_std x of Some w \<Rightarrow> w | None \<Rightarrow> fallback)"

text \<open>The last statement of each lambda: the callback called outside the try block.\<close>

definition invoke_last ::
    "('r \<Rightarrow> string \<Rightarrow> unit outcome) \<Rightarrow> ('r \<times> string) list \<Rightarrow> 'r \<Rightarrow> string \<Rightarrow> 'r thread_run" where
  "invoke_last callback before r error =
     \<lparr>invocations = before @ [(r, error)],
      uncaught = (case callback r error of Returns u \<Rightarrow> None | Throws y \<Rightarrow> Some y)\<rparr>"

definition DefaultFileSystem_Read ::
    "(string \<Rightarrow> IOBuffer outcome) \<Rightarrow> string \<Rightarrow> (IOBuffer \<Rightarrow> string \<Rightarrow> unit outcome)
     \<Rightarrow> IOBuffer thread_run" where
  "DefaultFileSystem_Read syncImpl_Read path callback =
     (let error = [];
          fallback = ''Unknown error while reading from '' @ path
      in case syncImpl_Read path of
           Throws x \<Rightarrow> invoke_last callback [] [] (caught_message x fallback)
         | Returns data \<Rightarrow>
             (case callback data error of
                Returns u \<Rightarrow> \<lparr>invocations = [(data, error)], uncaught = None\<rparr>
              | Throws x \<Rightarrow>
                  invoke_last callback [(data, error)] [] (caught_message x fallback)))"

definition DefaultFileSystem_Write ::
    "(string \<Rightarrow> IOBuffer \<Rightarrow> unit outcome) \<Rightarrow> string \<Rightarrow> IOBuffer \<Rightarrow> (string \<Rightarrow> unit outcome)
     \<Rightarrow> unit thread_run" where
  "DefaultFileSystem_Write syncImpl_Write path data callback =
     (let error =
            (case syncImpl_Write path data of
               Returns u \<Rightarrow> []
             | Throws x \<Rightarrow> caught_message x (''Unknown error while writing to '' @ path))
      in invoke_last (\<lambda>u. callback) [] () error)"

definition DefaultFileSystem_Move ::
    "(string \<Rightarrow> string \<Rightarrow> unit outcome) \<Rightarrow> string \<Rightarrow> string \<Rightarrow> (string \<Rightarrow> unit outcome)
     \<Rightarrow> unit thread_run" where
  "DefaultFileSystem_Move syncImpl_Move fromPath toPath callback =
     (let error =
            (case syncImpl_Move fromPath toPath of
               Returns u \<Rightarrow> []
             | Throws x \<Rightarrow>
                 caught_message x (''Unknown error while moving '' @ fromPath @ '' to '' @ toPath))
      in invoke_last (\<lambda>u. callback) [] () error)"

definition DefaultFileSystem_Remove ::
    "(string \<Rightarrow> unit outcome) \<Rightarrow> string \<Rightarrow> (string \<Rightarrow> unit outcome) \<Rightarrow> unit thread_run" where
  "DefaultFileSystem_Remove syncImpl_Remove path callback =
     (let error =
            (case syncImpl_Remove path of
               Returns u \<Rightarrow> []
             | Throws x \<Rightarrow> caught_message x (''Unknown error while removing '' @ path))
      in invoke_last (\<lambda>u. callback) [] () error)"

definition DefaultFileSystem_Stat ::
    "(string \<Rightarrow> StatResult outcome) \<Rightarrow> string \<Rightarrow> (StatResult \<Rightarrow> string \<Rightarrow> unit outcome)
     \<Rightarrow> StatResult thread_run" where
  "DefaultFileSystem_Stat syncImpl_Stat path callback =
     (let error = [];
          fallback = ''Unknown error while calling stat on '' @ path
      in case syncImpl_Stat path of
           Throws x \<Rightarrow> invoke_last callback [] StatResult_default (caught_message x fallback)
         | Returns result \<Rightarrow>
             (case callback result error of
                Returns u \<Rightarrow> \<lparr>invocations = [(result, error)], uncaught = None\<rparr>
              | Throws x \<Rightarrow>
                  invoke_last callback [(result, error)] StatResult_default
                    (caught_message x fallback)))"

definition DefaultFileSystem_Resolve :: "DefaultFileSystemSync \<Rightarrow> string \<Rightarrow> string" where
  "DefaultFileSystem_Resolve syncImpl path = DefaultFileSystemSync_Resolve syncImpl path"

text \<open>
  The wording of the spec for Resolve, kept beside the code's function to compare the
  two: a path that does not start with the separator is relative and is put behind the
  base path, with a separator between them only when the base path does not end in one;
  a path that starts with the separator is absolute and is returned as it is.
\<close>

definition Resolve_as_specified :: "string \<Rightarrow> string \<Rightarrow> string" where
  "Resolve_as_specified base path =
     (if path \<noteq> [] \<and> hd path = PATH_SEPARATOR then path
      else if base \<noteq> [] \<and> last base = PATH_SEPARATOR then base @ path
      else base @ [PATH_SEPARATOR] @ path)"

text \<open>SetBasePath followed by one Resolve, as a host configures and then uses the engine.\<close>

definition Resolve_after_SetBasePath ::
    "DefaultFileSystemSync \<Rightarrow> string \<Rightarrow> string \<Rightarrow> string defined" where
  "Resolve_after_SetBasePath this base path =
     (case DefaultFileSystemSync_SetBasePath this base of
        UndefinedBehaviour \<Rightarrow> UndefinedBehaviour
      | Defined this1 \<Rightarrow> Defined (DefaultFileSystemSync_Resolve this1 path))"

text \<open>
  A small system to run the operations on: one regular file in a directory, a pipe, one
  path the system refuses to open, and \<open>stat\<close> answers for them.
\<close>

definition sample_os :: os where
  "sample_os =
     \<lparr>files = [''/data/patterns.ini'' \<mapsto> RegularFile [1, 2, 3],
               ''/data'' \<mapsto> Directory 4096,
               ''/run/abp.fifo'' \<mapsto> Pipe [9]],
      refused = [''/locked/prefs.json'' \<mapsto> 13],
      stat_table = (\<lambda>p. if p = ''/data/patterns.ini''
                         then Inr \<lparr>st_mode = 33188, st_mtim_tv_sec = 1500000000,
                                   st_mtim_tv_nsec = 250000000\<rparr>
                         else if p = ''/data''
                         then Inr \<lparr>st_mode = 16877, st_mtim_tv_sec = 1500000000,
                                   st_mtim_tv_nsec = 0\<rparr>
                         else if p = ''/run/abp.fifo''
                         then Inr \<lparr>st_mode = 4516, st_mtim_tv_sec = 1500000000,
                                   st_mtim_tv_nsec = 0\<rparr>
                         else if p = ''/locked/prefs.json'' then Inl 13
                         else Inl ENOENT),
      errno = 0,
      strerror = (\<lambda>e. if e = 2 then ''No such file or directory''
                       else if e = 13 then ''Permission denied''
                       else ''Unknown error'')\<rparr>"

section \<open>JsEngine\<close>

subsection \<open>The V8 interface used by JsEngine.cpp\<close>

text \<open>
  A V8 value is represented by the text \<open>v8::String::Utf8Value\<close> gives for it, the only
  observation JsEngine.cpp makes of an exception or a resource name; a function made
  from a \<open>FunctionTemplate\<close> carries the native callback and the \<open>v8::External\<close> data
  handed to the template, and prints as native code.
\<close>

type_synonym addr = nat

datatype v8_value =
    V8Value string
  | V8Function nat addr

fun Utf8Value :: "v8_value \<Rightarrow> string" where
  "Utf8Value (V8Value txt) = txt"
| "Utf8Value (V8Function callback external) = ''function () { [native code] }''"

record v8_message =
  GetScriptResourceName :: v8_value
  GetLineNumber :: int

text \<open>
  What a \<open>v8::TryCatch\<close> holds once something was thrown under it: the exception and
  the message, whose handle may be empty.
\<close>

record caught =
  Exception :: v8_value
  Message :: "v8_message option"

record Script =
  script_source :: string
  script_origin :: "string option"

text \<open>
  The script engine itself is outside the sources: \<open>Script_Compile\<close> answers what
  \<open>v8::Script::Compile\<close> leaves in the TryCatch for a source and an optional resource
  name (\<open>None\<close>: it compiled), \<open>Script_Run\<close> the handle that running a compiled script
  returns together with what the run leaves in the TryCatch.
\<close>

record v8_engine =
  Script_Compile :: "string \<Rightarrow> string option \<Rightarrow> caught option"
  Script_Run :: "Script \<Rightarrow> v8_value \<times> caught option"

text \<open>The scripts the isolate has run so far, oldest first.\<close>

record isolate =
  executed :: "Script list"

definition digit :: "nat \<Rightarrow> char" where
  "digit d = ''0123456789'' ! (d mod 10)"

fun decimal :: "nat \<Rightarrow> string" where
  "decimal n = (if n < 10 then [digit n] else decimal (n div 10) @ [digit (n mod 10)])"

declare decimal.simps [simp del]

text \<open>\<open>error << n\<close> for an \<open>int\<close>: the decimal digits, after a minus sign when negative.\<close>

definition show_int :: "int \<Rightarrow> string" where
  "show_int i = (if i < 0 then CHR ''-'' # decimal (nat (- i)) else decimal (nat i))"

definition CompileScript :: "v8_engine \<Rightarrow> string \<Rightarrow> string \<Rightarrow> Script \<times> caught option" where
  "CompileScript v8 source filename =
     (if length filename \<noteq> 0
      then (\<lparr>script_source = source, script_origin = Some filename\<rparr>,
            Script_Compile v8 source (Some filename))
      else (\<lparr>script_source = source, script_origin = None\<rparr>,
            Script_Compile v8 source None))"

definition ExceptionToString :: "v8_value \<Rightarrow> v8_message option \<Rightarrow> string" where
  "ExceptionToString exception message =
     (let error = Utf8Value exception in
      case message of
        None \<Rightarrow> error
      | Some m \<Rightarrow>
          error @ '' at '' @ Utf8Value (GetScriptResourceName m) @ '':''
                @ show_int (GetLineNumber m))"

definition new_JsError :: "v8_value \<Rightarrow> v8_message option \<Rightarrow> exn" where
  "new_JsError exception message = JsError (ExceptionToString exception message)"

definition CheckTryCatch :: "caught option \<Rightarrow> unit outcome" where
  "CheckTryCatch tryCatch =
     (case tryCatch of
        None \<Rightarrow> Returns ()
      | Some c \<Rightarrow> Throws (new_JsError (Exception c) (Message c)))"

record JsValue =
  jsEngine :: addr
  jsValue :: v8_value

text \<open>
  Evaluate on the engine at address \<open>this\<close>. The \<open>Context\<close> object only takes the
  isolate's lock and enters the context; locking is not part of the model.
\<close>

definition JsEngine_Evaluate ::
    "v8_engine \<Rightarrow> isolate \<Rightarrow> addr \<Rightarrow> string \<Rightarrow> string \<Rightarrow> JsValue outcome \<times> isolate" where
  "JsEngine_Evaluate v8 isol this source filename =
     (let (script, tryCatch1) = CompileScript v8 source filename in
      case CheckTryCatch tryCatch1 of
        Throws x \<Rightarrow> (Throws x, isol)
      | Returns u \<Rightarrow>
          (let isol1 = isol\<lparr>executed := executed isol @ [script]\<rparr>;
               (result, tryCatch2) = Script_Run v8 script
           in case CheckTryCatch tryCatch2 of
                Throws x \<Rightarrow> (Throws x, isol1)
              | Returns u \<Rightarrow> (Returns \<lparr>jsEngine = this, jsValue = result\<rparr>, isol1)))"

text \<open>
  The wording of the spec for the text of a ScriptError with a message, kept beside the
  code's ExceptionToString to compare the two: the thrown value's textual form, the
  source label given to Evaluate, and the line number.
\<close>

definition ScriptError_text_as_specified :: "string \<Rightarrow> string \<Rightarrow> int \<Rightarrow> string" where
  "ScriptError_text_as_specified thrown sourceLabel line =
     thrown @ '' at '' @ sourceLabel @ '':'' @ show_int line"

text \<open>
  A small script engine to run Evaluate on. It rejects one source at compile time, with
  a message that names the resource the script was compiled under (and prints as
  "undefined" when there is none). When it runs \<open>boom()\<close> the exception comes out of a
  function that an earlier script, lib.js, defined, and the message names that script.
  It throws the number 7 without a message when it runs another source, and gives the
  value 3 for everything else.
\<close>

definition sample_v8 :: v8_engine where
  "sample_v8 =
     \<lparr>Script_Compile =
        (\<lambda>source origin.
           if source = ''var x = ;''
           then Some \<lparr>Exception = V8Value ''SyntaxError: Unexpected token ;'',
                      Message = Some \<lparr>GetScriptResourceName =
                                        (case origin of
                                           None \<Rightarrow> V8Value ''undefined''
                                         | Some name \<Rightarrow> V8Value name),
                                      GetLineNumber = 12\<rparr>\<rparr>
           else None),
      Script_Run =
        (\<lambda>script.
           if script_source script = ''throw 7''
           then (V8Value [], Some \<lparr>Exception = V8Value ''7'', Message = None\<rparr>)
           else if script_source script = ''boom()''
           then (V8Value [],
                 Some \<lparr>Exception = V8Value ''Error: boom'',
                       Message = Some \<lparr>GetScriptResourceName = V8Value ''lib.js'',
                                       GetLineNumber = 3\<rparr>\<rparr>)
           else (V8Value ''3'', None))\<rparr>"

subsection \<open>Shared and weak pointers to the engine\<close>

text \<open>
  Every engine lives behind a control block, found by its address: the number of
  \<open>shared_ptr\<close>s that own the engine and whether the engine object still exists. It is
  destroyed when the last owner goes. A \<open>weak_ptr\<close> is the address of the control
  block; \<open>lock()\<close> gives an empty pointer once no owner is left and a new owner
  otherwise.
\<close>

record control_block =
  use_count :: nat
  alive :: bool

type_synonym heap = "addr \<Rightarrow> control_block"

type_synonym JsEnginePtr = "addr option"

definition weak_ptr_lock :: "heap \<Rightarrow> addr \<Rightarrow> JsEnginePtr \<times> heap" where
  "weak_ptr_lock h w =
     (if use_count (h w) = 0 then (None, h)
      else (Some w, h(w := (h w)\<lparr>use_count := use_count (h w) + 1\<rparr>)))"

definition shared_ptr_release :: "heap \<Rightarrow> addr \<Rightarrow> heap" where
  "shared_ptr_release h p =
     (if use_count (h p) \<le> 1 then h(p := \<lparr>use_count = 0, alive = False\<rparr>)
      else h(p := (h p)\<lparr>use_count := use_count (h p) - 1\<rparr>))"

record Arguments =
  Data :: addr
  argv :: "v8_value list"

text \<open>
  NewCallback builds the function value. The weak pointer it allocates (and never
  frees) observes the engine \<open>this\<close>; the returned JsValue is built from
  \<open>shared_from_this()\<close> and owns the engine.
\<close>

definition JsEngine_NewCallback :: "heap \<Rightarrow> addr \<Rightarrow> nat \<Rightarrow> JsValue \<times> heap" where
  "JsEngine_NewCallback h this callback =
     (let data = this;
          templ_function = V8Function callback data
      in (\<lparr>jsEngine = this, jsValue = templ_function\<rparr>,
          h(this := (h this)\<lparr>use_count := use_count (h this) + 1\<rparr>)))"

definition JsEngine_FromArguments :: "heap \<Rightarrow> Arguments \<Rightarrow> JsEnginePtr outcome \<times> heap" where
  "JsEngine_FromArguments h arguments =
     (let data = Data arguments;
          (result, h1) = weak_ptr_lock h data
      in if result = None
         then (Throws (RuntimeError ''Oops, our JsEngine is gone, how did that happen?''), h1)
         else (Returns result, h1))"

text \<open>
  ConvertArguments: the loop over the call's arguments appends one JsValue for each, in
  order; each is built from \<open>shared_from_this()\<close> and owns the engine.
\<close>

fun ConvertArguments_loop ::
    "heap \<Rightarrow> addr \<Rightarrow> v8_value list \<Rightarrow> JsValue list \<Rightarrow> JsValue list \<times> heap" where
  "ConvertArguments_loop h this [] list = (list, h)"
| "ConvertArguments_loop h this (v # rest) list =
     ConvertArguments_loop (h(this := (h this)\<lparr>use_count := use_count (h this) + 1\<rparr>)) this rest
       (list @ [\<lparr>jsEngine = this, jsValue = v\<rparr>])"

definition JsEngine_ConvertArguments :: "heap \<Rightarrow> addr \<Rightarrow> Arguments \<Rightarrow> JsValue list \<times> heap" where
  "JsEngine_ConvertArguments h this arguments = ConvertArguments_loop h this (argv arguments) []"

subsection \<open>An invocation from the scripting runtime\<close>

text \<open>
  A native function, as the host wrote it: given the engine and the converted
  arguments it returns a value or throws. The host's functions are found by the
  function pointer that was handed to NewCallback.
\<close>

type_synonym native_function = "addr \<Rightarrow> JsValue list \<Rightarrow> v8_value outcome"

text \<open>
  The run of one invocation: how it ended, the heap it left, and the native functions
  that were entered, each with the engine and the arguments it was given.
\<close>

record invocation =
  inv_outcome :: "v8_value outcome"
  inv_heap :: heap
  native_calls :: "(nat \<times> addr \<times> JsValue list) list"

text \<open>The spec's name for the error that FromArguments throws.\<close>

definition RuntimeGone :: exn where
  "RuntimeGone = RuntimeError ''Oops, our JsEngine is gone, how did that happen?''"

text \<open>
  Modelled from the spec: the native callbacks that the repository hands to NewCallback
  are defined in files that are not among the sources (JsEngine.cpp holds only the
  helpers they call). Section 4.4 of the spec says what each does when the scripting
  runtime invokes it: (1) it resolves the weak reference to the owning runtime, which is
  FromArguments; (2) if the reference is expired it fails at once with RuntimeGone,
  touching nothing; (3) otherwise it converts the arguments to value handles, which is
  ConvertArguments on the resolved engine, and invokes the native function. The context
  lock of step (3) is not part of the model.
\<close>

definition CallbackBridge_invoke ::
    "(nat \<Rightarrow> native_function) \<Rightarrow> heap \<Rightarrow> nat \<Rightarrow> Arguments \<Rightarrow> invocation" where
  "CallbackBridge_invoke natives h callback arguments =
     (let (resolved, h1) = JsEngine_FromArguments h arguments in
      case resolved of
        Throws x \<Rightarrow> \<lparr>inv_outcome = Throws x, inv_heap = h1, native_calls = []\<rparr>
      | Returns jsEnginePtr \<Rightarrow>
          (case jsEnginePtr of
             None \<Rightarrow> \<lparr>inv_outcome = Throws RuntimeGone, inv_heap = h1, native_calls = []\<rparr>
           | Some engine \<Rightarrow>
               (let (converted, h2) = JsEngine_ConvertArguments h1 engine arguments in
                \<lparr>inv_outcome = natives callback engine converted,
                 inv_heap = h2,
                 native_calls = [(callback, engine, converted)]\<rparr>)))"

text \<open>
  Script code calls a value: V8 enters the callback of a function made from a template,
  handing it the template's data and the call's arguments. Any other value is not
  callable this way (\<open>None\<close>).
\<close>

fun v8_invoke ::
    "(nat \<Rightarrow> native_function) \<Rightarrow> heap \<Rightarrow> v8_value \<Rightarrow> v8_value list \<Rightarrow> invocation option" where
  "v8_invoke natives h (V8Function callback external) args =
     Some (CallbackBridge_invoke natives h callback \<lparr>Data = external, argv = args\<rparr>)"
| "v8_invoke natives h (V8Value txt) args = None"

text \<open>
  A heap with one engine, at address 5, owned by one pointer (the host's); no other
  address holds an engine. The host's native functions: number 42 reports how many
  arguments it was given.
\<close>

definition sample_heap :: heap where
  "sample_heap = (\<lambda>a. \<lparr>use_count = 0, alive = False\<rparr>)(5 := \<lparr>use_count = 1, alive = True\<rparr>)"

definition sample_natives :: "nat \<Rightarrow> native_function" where
  "sample_natives =
     (\<lambda>callback engine converted.
        if callback = 42 then Returns (V8Value (show_int (int (length converted))))
        else Throws (RuntimeError ''no such function''))"

subsection \<open>The collaborators\<close>

text \<open>
  A collaborator pointer is empty (\<open>None\<close>) or refers to an implementation: the default
  one the engine constructs itself, or one the host supplied.
\<close>

datatype FileSystem = DefaultFileSystem | HostFileSystem nat
datatype WebRequest = DefaultWebRequest | HostWebRequest nat
datatype ErrorCallback = DefaultErrorCallback | HostErrorCallback nat

record JsEngine =
  fileSystem :: "FileSystem option"
  webRequest :: "WebRequest option"
  errorCallback :: "ErrorCallback option"

definition JsEngine_GetFileSystem :: "JsEngine \<Rightarrow> FileSystem option \<times> JsEngine" where
  "JsEngine_GetFileSystem this =
     (let this1 = (if fileSystem this = None then this\<lparr>fileSystem := Some DefaultFileSystem\<rparr>
                   else this)
      in (fileSystem this1, this1))"

definition JsEngine_SetFileSystem :: "JsEngine \<Rightarrow> FileSystem option \<Rightarrow> unit outcome \<times> JsEngine" where
  "JsEngine_SetFileSystem this val =
     (if val = None then (Throws (RuntimeError ''FileSystem cannot be null''), this)
      else (Returns (), this\<lparr>fileSystem := val\<rparr>))"

definition JsEngine_GetWebRequest :: "JsEngine \<Rightarrow> WebRequest option \<times> JsEngine" where
  "JsEngine_GetWebRequest this =
     (let this1 = (if webRequest this = None then this\<lparr>webRequest := Some DefaultWebRequest\<rparr>
                   else this)
      in (webRequest this1, this1))"

definition JsEngine_SetWebRequest :: "JsEngine \<Rightarrow> WebRequest option \<Rightarrow> unit outcome \<times> JsEngine" where
  "JsEngine_SetWebRequest this val =
     (if val = None then (Throws (RuntimeError ''WebRequest cannot be null''), this)
      else (Returns (), this\<lparr>webRequest := val\<rparr>))"

definition JsEngine_GetErrorCallback :: "JsEngine \<Rightarrow> ErrorCallback option \<times> JsEngine" where
  "JsEngine_GetErrorCallback this =
     (let this1 = (if errorCallback this = None
                   then this\<lparr>errorCallback := Some DefaultErrorCallback\<rparr>
                   else this)
      in (errorCallback this1, this1))"

definition JsEngine_SetErrorCallback ::
    "JsEngine \<Rightarrow> ErrorCallback option \<Rightarrow> unit outcome \<times> JsEngine" where
  "JsEngine_SetErrorCallback this val =
     (if val = None then (Throws (RuntimeError ''ErrorCallback cannot be null''), this)
      else (Returns (), this\<lparr>errorCallback := val\<rparr>))"

section \<open>Properties of the synchronous engine\<close>

subsection \<open>Resolve and SetBasePath\<close>

text \<open>
  Claim C3, as the spec words it, against the code. The two disagree on three kinds of
  input: an empty base path (the code returns a relative path as it is, the wording puts
  a separator in front), an empty path (returned as it is, where the wording appends a
  separator to the base path), and a base path that still ends in a separator, as
  SetBasePath leaves it for "/a//" (the code inserts a second separator, the wording
  none).
\<close>

theorem Resolve_differs_from_spec_wording:
  "DefaultFileSystemSync_Resolve \<lparr>basePath = ''''\<rparr> ''c'' = ''c''
   \<and> Resolve_as_specified '''' ''c'' = ''/c''
   \<and> DefaultFileSystemSync_Resolve \<lparr>basePath = ''/a/b''\<rparr> '''' = ''''
   \<and> Resolve_as_specified ''/a/b'' '''' = ''/a/b/''
   \<and> DefaultFileSystemSync_SetBasePath \<lparr>basePath = ''''\<rparr> ''/a//'' = Defined \<lparr>basePath = ''/a/''\<rparr>
   \<and> DefaultFileSystemSync_Resolve \<lparr>basePath = ''/a/''\<rparr> ''c'' = ''/a//c''
   \<and> Resolve_as_specified ''/a/'' ''c'' = ''/a/c''"
  by (simp add: DefaultFileSystemSync_Resolve_def Resolve_as_specified_def PATH_SEPARATOR_def
      DefaultFileSystemSync_SetBasePath_def rbegin_deref_def)

text \<open>
  Claim C3, amended. Resolve is a function of the stored base path and the path alone
  (it takes no system state, so it performs no I/O). With an empty base path, an empty
  path or a path that starts with the separator it returns the path unchanged; in every
  other case it returns base path, separator, path, and the separator is always
  inserted. The adapter's Resolve is the engine's. With base path "/a/b", "c" resolves to
  "/a/b/c" and "/c" to "/c".
\<close>

theorem Resolve_by_cases:
  "DefaultFileSystemSync_Resolve this path =
     (if basePath this = [] \<or> path = [] \<or> hd path = PATH_SEPARATOR then path
      else basePath this @ [PATH_SEPARATOR] @ path)
   \<and> DefaultFileSystem_Resolve this path = DefaultFileSystemSync_Resolve this path
   \<and> DefaultFileSystemSync_Resolve \<lparr>basePath = ''/a/b''\<rparr> ''c'' = ''/a/b/c''
   \<and> DefaultFileSystemSync_Resolve \<lparr>basePath = ''/a/b''\<rparr> ''/c'' = ''/c''"
  by (simp add: DefaultFileSystemSync_Resolve_def DefaultFileSystem_Resolve_def PATH_SEPARATOR_def)

theorem Resolve_by_cases_witness:
  "DefaultFileSystemSync_Resolve \<lparr>basePath = ''/var/lib/abp''\<rparr> ''patterns.ini''
     = ''/var/lib/abp/patterns.ini''
   \<and> DefaultFileSystemSync_Resolve \<lparr>basePath = ''/var/lib/abp''\<rparr> ''/etc/hosts'' = ''/etc/hosts''"
  using Resolve_by_cases [of "\<lparr>basePath = ''/var/lib/abp''\<rparr>" "''patterns.ini''"]
    Resolve_by_cases [of "\<lparr>basePath = ''/var/lib/abp''\<rparr>" "''/etc/hosts''"]
  by (simp add: PATH_SEPARATOR_def)

text \<open>
  Claim C8. For a non-empty argument SetBasePath stores the argument without its last
  character when that is the separator, and the argument itself otherwise: one
  separator is stripped, never two. Hence SetBasePath("/a/b/") and SetBasePath("/a/b")
  store the same base path, and Resolve gives the same answer for every path after
  either.
\<close>

theorem SetBasePath_strips_one_separator:
  "(path \<noteq> [] \<longrightarrow>
      DefaultFileSystemSync_SetBasePath this path =
        Defined (this\<lparr>basePath := (if last path = PATH_SEPARATOR then butlast path else path)\<rparr>))
   \<and> Resolve_after_SetBasePath this ''/a/b/'' p = Resolve_after_SetBasePath this ''/a/b'' p
   \<and> Resolve_after_SetBasePath this ''/a/b'' p =
       Defined (DefaultFileSystemSync_Resolve (this\<lparr>basePath := ''/a/b''\<rparr>) p)"
  by (simp add: Resolve_after_SetBasePath_def DefaultFileSystemSync_SetBasePath_def
      rbegin_deref_def Let_def butlast_conv_take PATH_SEPARATOR_def)

theorem SetBasePath_strips_one_separator_witness:
  "''/a//'' \<noteq> []
   \<and> DefaultFileSystemSync_SetBasePath \<lparr>basePath = ''''\<rparr> ''/a//'' = Defined \<lparr>basePath = ''/a/''\<rparr>
   \<and> Resolve_after_SetBasePath \<lparr>basePath = ''''\<rparr> ''/a/b/'' ''c'' = Defined ''/a/b/c''"
  using SetBasePath_strips_one_separator [of "''/a//''" "\<lparr>basePath = ''''\<rparr>" "''c''"]
  by (simp add: PATH_SEPARATOR_def DefaultFileSystemSync_Resolve_def)

text \<open>
  Claim C10. SetBasePath dereferences \<open>basePath.rbegin()\<close> without a test, so the
  out-of-range access is reached exactly for the empty argument: the call is undefined
  behaviour when the argument is empty and defined for every non-empty argument.
\<close>

theorem SetBasePath_undefined_iff_empty:
  "(DefaultFileSystemSync_SetBasePath this path = UndefinedBehaviour) = (path = [])"
  by (simp add: DefaultFileSystemSync_SetBasePath_def rbegin_deref_def Let_def)

theorem SetBasePath_undefined_iff_empty_witness:
  "DefaultFileSystemSync_SetBasePath \<lparr>basePath = ''/a/b''\<rparr> '''' = UndefinedBehaviour
   \<and> DefaultFileSystemSync_SetBasePath \<lparr>basePath = ''/a/b''\<rparr> ''/'' \<noteq> UndefinedBehaviour"
  using SetBasePath_undefined_iff_empty [of "\<lparr>basePath = ''/a/b''\<rparr>" "''''"]
    SetBasePath_undefined_iff_empty [of "\<lparr>basePath = ''/a/b''\<rparr>" "''/''"]
  by simp

subsection \<open>Read\<close>

lemma read_whole_stream:
  "ifstream_read \<lparr>stream_bytes = b, end_offset = e, gpos = 0, failbit = False\<rparr>
       (replicate (length b) 0)
     = (b, \<lparr>stream_bytes = b, end_offset = e, gpos = length b, failbit = False\<rparr>)"
  by (simp add: ifstream_read_def Let_def)

lemma read_nothing:
  "ifstream_read \<lparr>stream_bytes = [], end_offset = e, gpos = 0, failbit = False\<rparr> target
     = (target, \<lparr>stream_bytes = [], end_offset = e, gpos = 0, failbit = 0 < length target\<rparr>)"
  by (simp add: ifstream_read_def Let_def)

text \<open>A regular file that opens is returned byte for byte.\<close>

lemma Read_opened:
  assumes "refused s path = None" and "files s path = Some (RegularFile b)"
  shows "DefaultFileSystemSync_Read s path = (Returns b, s)"
  using assms
  by (simp add: DefaultFileSystemSync_Read_def NormalizePath_def ifstream_open_def seekg_end_def
      seekg_beg_def tellg_def new_IOBuffer_def read_whole_stream)

text \<open>A failed open is reported with the path and the text of the error number.\<close>

lemma Read_refused:
  assumes "refused s path = Some e"
  shows "DefaultFileSystemSync_Read s path =
           (Throws (RuntimeErrorWithErrno (''Failed to open '' @ path @ '' ('' @ strerror s e @ '')'')),
            s\<lparr>errno := e\<rparr>)"
  using assms
  by (simp add: DefaultFileSystemSync_Read_def NormalizePath_def ifstream_open_def
      new_RuntimeErrorWithErrno_def)

lemma Read_missing:
  assumes "refused s path = None" and "files s path = None"
  shows "DefaultFileSystemSync_Read s path =
           (Throws (RuntimeErrorWithErrno
                      (''Failed to open '' @ path @ '' ('' @ strerror s ENOENT @ '')'')),
            s\<lparr>errno := ENOENT\<rparr>)"
  using assms
  by (simp add: DefaultFileSystemSync_Read_def NormalizePath_def ifstream_open_def
      new_RuntimeErrorWithErrno_def)

text \<open>
  Read tests the stream once, after the open. A stream that opened and cannot seek
  leaves \<open>tellg\<close> at -1, and the exception is the vector's; a directory opens, reports
  some offset as its end and delivers nothing, and Read returns that many zero bytes.
\<close>

lemma Read_pipe:
  assumes "refused s path = None" and "files s path = Some (Pipe b)"
  shows "DefaultFileSystemSync_Read s path =
           (Throws (StdException ''cannot create std::vector larger than max_size()''), s)"
  using assms
  by (simp add: DefaultFileSystemSync_Read_def NormalizePath_def ifstream_open_def seekg_end_def
      seekg_beg_def tellg_def new_IOBuffer_def)

lemma Read_directory:
  assumes "refused s path = None" and "files s path = Some (Directory n)"
  shows "DefaultFileSystemSync_Read s path = (Returns (replicate n 0), s)"
  using assms
  by (simp add: DefaultFileSystemSync_Read_def NormalizePath_def ifstream_open_def seekg_end_def
      seekg_beg_def tellg_def new_IOBuffer_def read_nothing)

lemma open_fails_iff:
  "failbit (fst (ifstream_open s path)) = (refused s path \<noteq> None \<or> files s path = None)"
  by (simp add: ifstream_open_def split: option.splits node.splits)

lemma Read_error_text:
  assumes "fst (DefaultFileSystemSync_Read s path) = Throws x"
  shows "\<exists>w. catch_std x = Some w \<and> w \<noteq> []"
proof (cases "refused s path")
  case (Some e)
  with assms show ?thesis by (auto simp: Read_refused)
next
  case None
  show ?thesis
  proof (cases "files s path")
    case no_node: None
    with None assms show ?thesis by (auto simp: Read_missing)
  next
    case (Some nd)
    with None assms show ?thesis
      by (cases nd) (auto simp: Read_opened Read_pipe Read_directory)
  qed
qed

lemma Read_sample_file:
  "fst (DefaultFileSystemSync_Read sample_os ''/data/patterns.ini'') = Returns [1, 2, 3]
   \<and> fst (DefaultFileSystemSync_Read sample_os ''/locked/prefs.json'')
       = Throws (RuntimeErrorWithErrno ''Failed to open /locked/prefs.json (Permission denied)'')
   \<and> fst (DefaultFileSystemSync_Read sample_os ''/nowhere'')
       = Throws (RuntimeErrorWithErrno ''Failed to open /nowhere (No such file or directory)'')"
proof -
  have "refused sample_os ''/data/patterns.ini'' = None"
    and "files sample_os ''/data/patterns.ini'' = Some (RegularFile [1, 2, 3])"
    and "refused sample_os ''/locked/prefs.json'' = Some 13"
    and "refused sample_os ''/nowhere'' = None"
    and "files sample_os ''/nowhere'' = None"
    and "strerror sample_os 13 = ''Permission denied''"
    and "strerror sample_os ENOENT = ''No such file or directory''"
    by (simp_all add: sample_os_def ENOENT_def)
  then show ?thesis
    by (simp add: Read_opened Read_refused Read_missing)
qed

text \<open>
  Claim C5, at two paths that open and are not regular files. The pipe opens
  (\<open>failbit\<close> is clear after the constructor, so the test at the top of Read passes),
  the seek to the end fails, \<open>tellg\<close> answers -1, and Read leaves with the vector's
  \<open>std::length_error\<close>: an exception although the file could be opened, whose text
  names neither the path nor the error of the system. The directory opens as well, and
  Read returns 4096 zero bytes that no file holds. (A regular file is returned byte for
  byte and a failed open is reported with path and error text: \<open>Read_opened\<close>,
  \<open>Read_refused\<close>, \<open>Read_missing\<close>.)
\<close>

theorem Read_of_an_opened_stream_that_is_no_regular_file:
  "failbit (fst (ifstream_open sample_os ''/run/abp.fifo'')) = False
   \<and> fst (DefaultFileSystemSync_Read sample_os ''/run/abp.fifo'')
       = Throws (StdException ''cannot create std::vector larger than max_size()'')
   \<and> failbit (fst (ifstream_open sample_os ''/data'')) = False
   \<and> fst (DefaultFileSystemSync_Read sample_os ''/data'') = Returns (replicate 4096 0)"
proof -
  have pipe: "refused sample_os ''/run/abp.fifo'' = None"
      "files sample_os ''/run/abp.fifo'' = Some (Pipe [9])"
    and dir: "refused sample_os ''/data'' = None"
      "files sample_os ''/data'' = Some (Directory 4096)"
    by (simp_all add: sample_os_def)
  have "fst (DefaultFileSystemSync_Read sample_os ''/run/abp.fifo'')
          = Throws (StdException ''cannot create std::vector larger than max_size()'')"
    using pipe
    by (simp add: DefaultFileSystemSync_Read_def NormalizePath_def ifstream_open_def
        seekg_end_def seekg_beg_def tellg_def new_IOBuffer_def)
  moreover have "fst (DefaultFileSystemSync_Read sample_os ''/data'') = Returns (replicate 4096 0)"
    using dir
    by (simp add: DefaultFileSystemSync_Read_def NormalizePath_def ifstream_open_def
        seekg_end_def seekg_beg_def tellg_def new_IOBuffer_def read_nothing)
  moreover have "failbit (fst (ifstream_open sample_os ''/run/abp.fifo'')) = False"
    and "failbit (fst (ifstream_open sample_os ''/data'')) = False"
    using pipe dir by (simp_all add: ifstream_open_def)
  ultimately show ?thesis by simp
qed

subsection \<open>Write\<close>

lemma Write_always_returns: "fst (DefaultFileSystemSync_Write s path data) = Returns ()"
  by (simp add: DefaultFileSystemSync_Write_def split: prod.splits)

lemma Write_opened:
  assumes "refused s path = None"
    and "files s path = None \<or> files s path = Some (RegularFile old)"
  shows "DefaultFileSystemSync_Write s path data =
           (Returns (), s\<lparr>files := (files s)(path \<mapsto> RegularFile data)\<rparr>)"
  using assms
  by (auto simp: DefaultFileSystemSync_Write_def NormalizePath_def ofstream_open_def
      ofstream_write_def)

lemma Write_refused:
  assumes "refused s path = Some e"
  shows "DefaultFileSystemSync_Write s path data = (Returns (), s\<lparr>errno := e\<rparr>)"
  using assms
  by (simp add: DefaultFileSystemSync_Write_def NormalizePath_def ofstream_open_def
      ofstream_write_def)

lemma Read_after_Write:
  assumes "refused s path = None"
    and "files s path = None \<or> files s path = Some (RegularFile old)"
  shows "fst (DefaultFileSystemSync_Read (snd (DefaultFileSystemSync_Write s path data)) path)
           = Returns data"
proof -
  have "DefaultFileSystemSync_Write s path data =
          (Returns (), s\<lparr>files := (files s)(path \<mapsto> RegularFile data)\<rparr>)"
    using assms by (rule Write_opened)
  moreover have "DefaultFileSystemSync_Read (s\<lparr>files := (files s)(path \<mapsto> RegularFile data)\<rparr>) path
                   = (Returns data, s\<lparr>files := (files s)(path \<mapsto> RegularFile data)\<rparr>)"
    using assms(1) by (intro Read_opened) simp_all
  ultimately show ?thesis by simp
qed

text \<open>
  Claim C2, at an input where the system refuses the open. Write never tests its
  stream: the call returns normally, no exception is thrown, and no file holds the
  bytes afterwards. (Where the open succeeds the file is created or truncated and holds
  exactly the buffer: \<open>Write_opened\<close>; that Write returns normally on every input is
  \<open>Write_always_returns\<close>.)
\<close>

theorem Write_returns_normally_when_open_fails:
  "refused sample_os ''/locked/prefs.json'' = Some 13
   \<and> DefaultFileSystemSync_Write sample_os ''/locked/prefs.json'' [7, 8]
       = (Returns (), sample_os\<lparr>errno := 13\<rparr>)
   \<and> files (snd (DefaultFileSystemSync_Write sample_os ''/locked/prefs.json'' [7, 8]))
        ''/locked/prefs.json'' = None"
  by (simp add: DefaultFileSystemSync_Write_def NormalizePath_def ofstream_open_def
      ofstream_write_def sample_os_def)

subsection \<open>Stat\<close>

lemma Stat_failure:
  assumes "stat_table s path = Inl e"
  shows "DefaultFileSystemSync_Stat s u path =
           (if e = ENOENT then Returns StatResult_default
            else Throws (RuntimeErrorWithErrno (''Unable to stat '' @ path @ '' ('' @ strerror s e @ '')'')),
            s\<lparr>errno := e\<rparr>)"
  using assms
  by (simp add: DefaultFileSystemSync_Stat_def NormalizePath_def stat_call_def
      new_RuntimeErrorWithErrno_def)

lemma Stat_success:
  assumes "stat_table s path = Inr st"
  shows "\<exists>r. DefaultFileSystemSync_Stat s u path = (Returns r, s) \<and> exists r"
  using assms
  by (simp add: DefaultFileSystemSync_Stat_def NormalizePath_def stat_call_def)

lemma Stat_error_text:
  assumes "fst (DefaultFileSystemSync_Stat s u path) = Throws x"
  shows "\<exists>w. catch_std x = Some w \<and> w \<noteq> []"
proof (cases "stat_table s path")
  case (Inl e)
  with assms show ?thesis by (auto simp: Stat_failure split: if_splits)
next
  case (Inr st)
  with assms Stat_success [OF Inr, of u] show ?thesis by auto
qed

text \<open>An existing regular file: the mode's type bits and the time in milliseconds.\<close>

lemma Stat_sample_file:
  "fst (DefaultFileSystemSync_Stat sample_os \<lparr>st_mode = 0, st_mtim_tv_sec = 0, st_mtim_tv_nsec = 0\<rparr>
          ''/data/patterns.ini'')
     = Returns \<lparr>exists = True, isFile = True, isDirectory = False,
                lastModified = 1500000000250\<rparr>"
  by (simp add: DefaultFileSystemSync_Stat_def NormalizePath_def stat_call_def sample_os_def
      StatResult_default_def S_ISREG_def S_ISDIR_def)

text \<open>
  Claim C4. When \<open>stat\<close> reports ENOENT for the path, Stat returns the default
  StatResult (exists, isFile and isDirectory false, lastModified 0) and throws nothing,
  and the adapter hands its callback that result with the empty error text first. Stat
  throws exactly when \<open>stat\<close> fails with an error number other than ENOENT.
\<close>

theorem Stat_absent_is_not_a_failure:
  "(stat_table s path = Inl ENOENT \<longrightarrow>
      fst (DefaultFileSystemSync_Stat s u path)
        = Returns \<lparr>exists = False, isFile = False, isDirectory = False, lastModified = 0\<rparr>
      \<and> take 1 (invocations (DefaultFileSystem_Stat
                   (\<lambda>p. fst (DefaultFileSystemSync_Stat s u p)) path callback))
        = [(\<lparr>exists = False, isFile = False, isDirectory = False, lastModified = 0\<rparr>, [])])
   \<and> ((\<exists>x. fst (DefaultFileSystemSync_Stat s u path) = Throws x)
        = (\<exists>e. stat_table s path = Inl e \<and> e \<noteq> ENOENT))"
proof (cases "stat_table s path")
  case (Inl e)
  then show ?thesis
    by (simp add: Stat_failure StatResult_default_def DefaultFileSystem_Stat_def invoke_last_def
        split: outcome.splits)
next
  case (Inr st)
  with Stat_success [OF Inr, of u] show ?thesis
    by auto
qed

theorem Stat_absent_is_not_a_failure_witness:
  "stat_table sample_os ''/nowhere'' = Inl ENOENT
   \<and> fst (DefaultFileSystemSync_Stat sample_os
            \<lparr>st_mode = 0, st_mtim_tv_sec = 0, st_mtim_tv_nsec = 0\<rparr> ''/nowhere'')
       = Returns \<lparr>exists = False, isFile = False, isDirectory = False, lastModified = 0\<rparr>
   \<and> (\<exists>x. fst (DefaultFileSystemSync_Stat sample_os
                  \<lparr>st_mode = 0, st_mtim_tv_sec = 0, st_mtim_tv_nsec = 0\<rparr> ''/locked/prefs.json'')
            = Throws x)"
proof -
  have absent: "stat_table sample_os ''/nowhere'' = Inl ENOENT"
    by (simp add: sample_os_def)
  have locked: "stat_table sample_os ''/locked/prefs.json'' = Inl 13 \<and> (13 :: nat) \<noteq> ENOENT"
    by (simp add: sample_os_def ENOENT_def)
  show ?thesis
    using absent locked
      Stat_absent_is_not_a_failure [of sample_os "''/nowhere''"
        "\<lparr>st_mode = 0, st_mtim_tv_sec = 0, st_mtim_tv_nsec = 0\<rparr>" "\<lambda>r e. Returns ()"]
      Stat_absent_is_not_a_failure [of sample_os "''/locked/prefs.json''"
        "\<lparr>st_mode = 0, st_mtim_tv_sec = 0, st_mtim_tv_nsec = 0\<rparr>" "\<lambda>r e. Returns ()"]
    by auto
qed

subsection \<open>Move and Remove\<close>

text \<open>Every exception of the engine is a \<open>std::exception\<close> with a non-empty text.\<close>

lemma Move_error_text:
  assumes "fst (DefaultFileSystemSync_Move s fromPath toPath) = Throws x"
  shows "\<exists>w. catch_std x = Some w \<and> w \<noteq> []"
  using assms
  by (auto simp: DefaultFileSystemSync_Move_def new_RuntimeErrorWithErrno_def
      split: prod.splits if_splits)

lemma Remove_error_text:
  assumes "fst (DefaultFileSystemSync_Remove s path) = Throws x"
  shows "\<exists>w. catch_std x = Some w \<and> w \<noteq> []"
  using assms
  by (auto simp: DefaultFileSystemSync_Remove_def new_RuntimeErrorWithErrno_def
      split: prod.splits if_splits)

section \<open>Properties of the asynchronous adapter\<close>

lemma caught_message_std: "catch_std x = Some w \<Longrightarrow> caught_message x fallback = w"
  by (simp add: caught_message_def)

lemma caught_message_other: "caught_message NonStdValue fallback = fallback"
  by (simp add: caught_message_def)

lemma invocations_invoke_last:
  "invocations (invoke_last callback before r error) = before @ [(r, error)]"
  by (simp add: invoke_last_def)

text \<open>
  When the engine throws, every operation calls its callback once, with the default
  result and the text of the handler that caught the exception; for a value that is not
  a \<open>std::exception\<close> this is the fallback text naming the operation and the path.
\<close>

lemma Read_engine_throws:
  "syncImpl_Read path = Throws x \<Longrightarrow>
   invocations (DefaultFileSystem_Read syncImpl_Read path callback) =
     [([], caught_message x (''Unknown error while reading from '' @ path))]"
  by (simp add: DefaultFileSystem_Read_def invocations_invoke_last)

lemma Stat_engine_throws:
  "syncImpl_Stat path = Throws x \<Longrightarrow>
   invocations (DefaultFileSystem_Stat syncImpl_Stat path callback) =
     [(StatResult_default, caught_message x (''Unknown error while calling stat on '' @ path))]"
  by (simp add: DefaultFileSystem_Stat_def invocations_invoke_last)

text \<open>Write, Move and Remove call the callback after the try block: once on every run.\<close>

lemma Write_callback_once:
  "invocations (DefaultFileSystem_Write syncImpl_Write path data callback) =
     [((), case syncImpl_Write path data of
             Returns u \<Rightarrow> []
           | Throws x \<Rightarrow> caught_message x (''Unknown error while writing to '' @ path))]"
  by (simp add: DefaultFileSystem_Write_def invocations_invoke_last)

lemma Move_callback_once:
  "invocations (DefaultFileSystem_Move syncImpl_Move fromPath toPath callback) =
     [((), case syncImpl_Move fromPath toPath of
             Returns u \<Rightarrow> []
           | Throws x \<Rightarrow>
               caught_message x (''Unknown error while moving '' @ fromPath @ '' to '' @ toPath))]"
  by (simp add: DefaultFileSystem_Move_def invocations_invoke_last)

lemma Remove_callback_once:
  "invocations (DefaultFileSystem_Remove syncImpl_Remove path callback) =
     [((), case syncImpl_Remove path of
             Returns u \<Rightarrow> []
           | Throws x \<Rightarrow> caught_message x (''Unknown error while removing '' @ path))]"
  by (simp add: DefaultFileSystem_Remove_def invocations_invoke_last)

text \<open>
  Read and Stat call the callback for the success case inside the try block. When that
  call returns, it was the only one.
\<close>

lemma Read_callback_returns:
  "syncImpl_Read path = Returns data \<Longrightarrow> callback data [] = Returns () \<Longrightarrow>
   DefaultFileSystem_Read syncImpl_Read path callback =
     \<lparr>invocations = [(data, [])], uncaught = None\<rparr>"
  by (simp add: DefaultFileSystem_Read_def)

lemma Stat_callback_returns:
  "syncImpl_Stat path = Returns result \<Longrightarrow> callback result [] = Returns () \<Longrightarrow>
   DefaultFileSystem_Stat syncImpl_Stat path callback =
     \<lparr>invocations = [(result, [])], uncaught = None\<rparr>"
  by (simp add: DefaultFileSystem_Stat_def)

text \<open>When that call throws, the handlers catch the callback's own exception.\<close>

lemma Read_callback_throws:
  "syncImpl_Read path = Returns data \<Longrightarrow> callback data [] = Throws x \<Longrightarrow>
   invocations (DefaultFileSystem_Read syncImpl_Read path callback) =
     [(data, []), ([], caught_message x (''Unknown error while reading from '' @ path))]"
  by (simp add: DefaultFileSystem_Read_def invocations_invoke_last)

lemma Stat_callback_throws:
  "syncImpl_Stat path = Returns result \<Longrightarrow> callback result [] = Throws x \<Longrightarrow>
   invocations (DefaultFileSystem_Stat syncImpl_Stat path callback) =
     [(result, []),
      (StatResult_default, caught_message x (''Unknown error while calling stat on '' @ path))]"
  by (simp add: DefaultFileSystem_Stat_def invocations_invoke_last)

text \<open>
  Claim C1, at a request whose callback throws when it is handed the success result.
  Read of an existing file calls the callback with the file's bytes and the empty error
  text, catches the callback's exception, and calls the callback a second time with the
  empty buffer and that exception's text: the request is reported as a success and as a
  failure. Stat does the same.
\<close>

theorem Read_and_Stat_invoke_a_throwing_callback_twice:
  "DefaultFileSystem_Read (\<lambda>p. fst (DefaultFileSystemSync_Read sample_os p)) ''/data/patterns.ini''
     (\<lambda>data error. if error = [] then Throws (RuntimeError ''listener failed'') else Returns ())
     = \<lparr>invocations = [([1, 2, 3], []), ([], ''listener failed'')], uncaught = None\<rparr>
   \<and> DefaultFileSystem_Stat
       (\<lambda>p. fst (DefaultFileSystemSync_Stat sample_os
                    \<lparr>st_mode = 0, st_mtim_tv_sec = 0, st_mtim_tv_nsec = 0\<rparr> p))
       ''/nowhere''
       (\<lambda>result error. if error = [] then Throws (RuntimeError ''listener failed'') else Returns ())
     = \<lparr>invocations =
          [(\<lparr>exists = False, isFile = False, isDirectory = False, lastModified = 0\<rparr>, []),
           (\<lparr>exists = False, isFile = False, isDirectory = False, lastModified = 0\<rparr>,
            ''listener failed'')],
        uncaught = None\<rparr>"
proof -
  have r: "fst (DefaultFileSystemSync_Read sample_os ''/data/patterns.ini'') = Returns [1, 2, 3]"
    by (simp add: DefaultFileSystemSync_Read_def NormalizePath_def ifstream_open_def seekg_end_def
        seekg_beg_def tellg_def new_IOBuffer_def ifstream_read_def sample_os_def Let_def)
  have s: "fst (DefaultFileSystemSync_Stat sample_os
                  \<lparr>st_mode = 0, st_mtim_tv_sec = 0, st_mtim_tv_nsec = 0\<rparr> ''/nowhere'')
           = Returns StatResult_default"
    by (simp add: DefaultFileSystemSync_Stat_def NormalizePath_def stat_call_def sample_os_def)
  show ?thesis
    by (simp add: DefaultFileSystem_Read_def DefaultFileSystem_Stat_def r s invoke_last_def
        caught_message_def StatResult_default_def)
qed

section \<open>Properties of JsEngine\<close>

subsection \<open>Evaluate\<close>

lemma CheckTryCatch_none: "CheckTryCatch None = Returns ()"
  by (simp add: CheckTryCatch_def)

lemma CheckTryCatch_some:
  "CheckTryCatch (Some c) =
     Throws (JsError (Utf8Value (Exception c) @
       (case Message c of
          None \<Rightarrow> []
        | Some m \<Rightarrow> '' at '' @ Utf8Value (GetScriptResourceName m) @ '':''
                     @ show_int (GetLineNumber m))))"
  by (simp add: CheckTryCatch_def new_JsError_def ExceptionToString_def split: option.splits)

text \<open>
  Claim C7, as the spec words it, against the code. ExceptionToString prints the script
  resource name of the exception's message and never looks at the label given to
  Evaluate. Evaluating \<open>boom()\<close> under the label init.js, where the exception comes out
  of a function that lib.js defined, gives a text that names lib.js, not the label; and
  a source that fails to compile under the empty label gives " at undefined:12", where
  the wording has the empty label between " at " and the colon.
\<close>

theorem Evaluate_error_text_differs_from_spec_wording:
  "JsEngine_Evaluate sample_v8 \<lparr>executed = []\<rparr> 1 ''boom()'' ''init.js''
     = (Throws (JsError ''Error: boom at lib.js:3''),
        \<lparr>executed = [\<lparr>script_source = ''boom()'', script_origin = Some ''init.js''\<rparr>]\<rparr>)
   \<and> ScriptError_text_as_specified ''Error: boom'' ''init.js'' 3 = ''Error: boom at init.js:3''
   \<and> JsEngine_Evaluate sample_v8 \<lparr>executed = []\<rparr> 1 ''var x = ;'' ''''
     = (Throws (JsError ''SyntaxError: Unexpected token ; at undefined:12''), \<lparr>executed = []\<rparr>)
   \<and> ScriptError_text_as_specified ''SyntaxError: Unexpected token ;'' '''' 12
     = ''SyntaxError: Unexpected token ; at :12''"
proof -
  have lines: "show_int 3 = ''3''" "show_int 12 = ''12''"
    by (simp_all add: show_int_def decimal.simps digit_def)
  show ?thesis
    by (simp add: JsEngine_Evaluate_def CompileScript_def CheckTryCatch_def new_JsError_def
        ExceptionToString_def ScriptError_text_as_specified_def sample_v8_def lines)
qed

text \<open>
  Claim C7, amended. Evaluate compiles the source, under the label as resource name
  when the label is not empty and without a resource name otherwise, and runs the script
  only if the compilation left nothing in the TryCatch. An exception of the compilation
  or of the run leaves Evaluate as a JsError whose text is the text of the thrown value,
  followed, when the exception has a message, by " at ", the script resource name that
  the message records, a colon and the line number; without a message it is the text of
  the thrown value alone. The resource name is the label only where V8 reports it so
  (an exception located in the evaluated source, compiled under a non-empty label), and
  then the text reads " at ", label, colon, line (the last part of the statement).
  After a failed compilation the isolate has run nothing. When neither step throws,
  Evaluate returns a JsValue of this engine for the value of the run.
\<close>

theorem Evaluate_outcome:
  assumes "CompileScript v8 source filename = (script, tryCatch1)"
    and "Script_Run v8 script = (result, tryCatch2)"
  shows
    "script = \<lparr>script_source = source,
               script_origin = (if filename = [] then None else Some filename)\<rparr>
     \<and> tryCatch1 = Script_Compile v8 source (script_origin script)
     \<and> (\<forall>c m. tryCatch1 = Some c \<and> Message c = Some m \<longrightarrow>
          JsEngine_Evaluate v8 isol this source filename =
            (Throws (JsError (Utf8Value (Exception c) @ '' at ''
                              @ Utf8Value (GetScriptResourceName m) @ '':''
                              @ show_int (GetLineNumber m))), isol))
     \<and> (\<forall>c. tryCatch1 = Some c \<and> Message c = None \<longrightarrow>
          JsEngine_Evaluate v8 isol this source filename =
            (Throws (JsError (Utf8Value (Exception c))), isol))
     \<and> (\<forall>c m. tryCatch1 = None \<and> tryCatch2 = Some c \<and> Message c = Some m \<longrightarrow>
          JsEngine_Evaluate v8 isol this source filename =
            (Throws (JsError (Utf8Value (Exception c) @ '' at ''
                              @ Utf8Value (GetScriptResourceName m) @ '':''
                              @ show_int (GetLineNumber m))),
             isol\<lparr>executed := executed isol @ [script]\<rparr>))
     \<and> (\<forall>c. tryCatch1 = None \<and> tryCatch2 = Some c \<and> Message c = None \<longrightarrow>
          JsEngine_Evaluate v8 isol this source filename =
            (Throws (JsError (Utf8Value (Exception c))),
             isol\<lparr>executed := executed isol @ [script]\<rparr>))
     \<and> (tryCatch1 = None \<and> tryCatch2 = None \<longrightarrow>
          JsEngine_Evaluate v8 isol this source filename =
            (Returns \<lparr>jsEngine = this, jsValue = result\<rparr>,
             isol\<lparr>executed := executed isol @ [script]\<rparr>))
     \<and> (\<forall>c m. (tryCatch1 = Some c \<or> tryCatch1 = None \<and> tryCatch2 = Some c)
              \<and> Message c = Some m \<and> GetScriptResourceName m = V8Value filename \<longrightarrow>
          fst (JsEngine_Evaluate v8 isol this source filename) =
            Throws (JsError (Utf8Value (Exception c) @ '' at '' @ filename @ '':''
                             @ show_int (GetLineNumber m))))"
proof -
  have script: "script = \<lparr>script_source = source,
                          script_origin = (if filename = [] then None else Some filename)\<rparr>"
    and tc1: "tryCatch1 = Script_Compile v8 source (script_origin script)"
    using assms(1) by (auto simp: CompileScript_def split: if_splits)
  have thrown1: "JsEngine_Evaluate v8 isol this source filename = (Throws x, isol)"
    if "CheckTryCatch tryCatch1 = Throws x" for x
    using that assms(1) by (simp add: JsEngine_Evaluate_def)
  have thrown2: "JsEngine_Evaluate v8 isol this source filename =
                   (Throws x, isol\<lparr>executed := executed isol @ [script]\<rparr>)"
    if "tryCatch1 = None" and "CheckTryCatch tryCatch2 = Throws x" for x
    using that assms by (simp add: JsEngine_Evaluate_def CheckTryCatch_none)
  have returned: "JsEngine_Evaluate v8 isol this source filename =
                   (Returns \<lparr>jsEngine = this, jsValue = result\<rparr>,
                    isol\<lparr>executed := executed isol @ [script]\<rparr>)"
    if "tryCatch1 = None" and "tryCatch2 = None"
    using that assms by (simp add: JsEngine_Evaluate_def CheckTryCatch_none)
  show ?thesis
    using script tc1 thrown1 thrown2 returned
    by (auto simp: CheckTryCatch_some)
qed

theorem Evaluate_outcome_witness:
  "JsEngine_Evaluate sample_v8 \<lparr>executed = []\<rparr> 1 ''var x = ;'' ''filters.js''
     = (Throws (JsError ''SyntaxError: Unexpected token ; at filters.js:12''), \<lparr>executed = []\<rparr>)
   \<and> JsEngine_Evaluate sample_v8 \<lparr>executed = []\<rparr> 1 ''throw 7'' ''init.js''
     = (Throws (JsError ''7''),
        \<lparr>executed = [\<lparr>script_source = ''throw 7'', script_origin = Some ''init.js''\<rparr>]\<rparr>)
   \<and> JsEngine_Evaluate sample_v8 \<lparr>executed = []\<rparr> 1 ''1 + 2'' ''''
     = (Returns \<lparr>jsEngine = 1, jsValue = V8Value ''3''\<rparr>,
        \<lparr>executed = [\<lparr>script_source = ''1 + 2'', script_origin = None\<rparr>]\<rparr>)"
proof -
  have c1: "CompileScript sample_v8 ''var x = ;'' ''filters.js'' =
              (\<lparr>script_source = ''var x = ;'', script_origin = Some ''filters.js''\<rparr>,
               Some \<lparr>Exception = V8Value ''SyntaxError: Unexpected token ;'',
                     Message = Some \<lparr>GetScriptResourceName = V8Value ''filters.js'',
                                     GetLineNumber = 12\<rparr>\<rparr>)"
    by (simp add: CompileScript_def sample_v8_def)
  have r1: "Script_Run sample_v8 \<lparr>script_source = ''var x = ;'', script_origin = Some ''filters.js''\<rparr>
              = (V8Value ''3'', None)"
    by (simp add: sample_v8_def)
  have c2: "CompileScript sample_v8 ''throw 7'' ''init.js'' =
              (\<lparr>script_source = ''throw 7'', script_origin = Some ''init.js''\<rparr>, None)"
    by (simp add: CompileScript_def sample_v8_def)
  have r2: "Script_Run sample_v8 \<lparr>script_source = ''throw 7'', script_origin = Some ''init.js''\<rparr>
              = (V8Value [], Some \<lparr>Exception = V8Value ''7'', Message = None\<rparr>)"
    by (simp add: sample_v8_def)
  have c3: "CompileScript sample_v8 ''1 + 2'' '''' =
              (\<lparr>script_source = ''1 + 2'', script_origin = None\<rparr>, None)"
    by (simp add: CompileScript_def sample_v8_def)
  have r3: "Script_Run sample_v8 \<lparr>script_source = ''1 + 2'', script_origin = None\<rparr>
              = (V8Value ''3'', None)"
    by (simp add: sample_v8_def)
  have line: "show_int 12 = ''12''"
    by (simp add: show_int_def decimal.simps digit_def)
  show ?thesis
    using Evaluate_outcome [OF c1 r1, of "\<lparr>executed = []\<rparr>" 1]
      Evaluate_outcome [OF c2 r2, of "\<lparr>executed = []\<rparr>" 1]
      Evaluate_outcome [OF c3 r3, of "\<lparr>executed = []\<rparr>" 1]
    by (simp add: line)
qed

subsection \<open>Native callbacks\<close>

lemma ConvertArguments_loop_eq:
  "ConvertArguments_loop h this vs list =
     (list @ map (\<lambda>v. \<lparr>jsEngine = this, jsValue = v\<rparr>) vs,
      h(this := (h this)\<lparr>use_count := use_count (h this) + length vs\<rparr>))"
proof (induction vs arbitrary: h list)
  case Nil
  show ?case by simp
next
  case (Cons v rest)
  show ?case by (auto simp: Cons.IH fun_eq_iff)
qed

lemma FromArguments_expired:
  assumes "use_count (h (Data arguments)) = 0"
  shows "JsEngine_FromArguments h arguments =
           (Throws (RuntimeError ''Oops, our JsEngine is gone, how did that happen?''), h)"
  using assms by (simp add: JsEngine_FromArguments_def weak_ptr_lock_def)

lemma FromArguments_live:
  assumes "use_count (h (Data arguments)) \<noteq> 0"
  shows "JsEngine_FromArguments h arguments =
           (Returns (Some (Data arguments)),
            h(Data arguments :=
                (h (Data arguments))\<lparr>use_count := use_count (h (Data arguments)) + 1\<rparr>))"
  using assms by (simp add: JsEngine_FromArguments_def weak_ptr_lock_def Let_def)

text \<open>
  Claim C6. Script code calls the function that NewCallback made for the native
  function \<open>callback\<close> of the engine \<open>this\<close>, at any later time (heap \<open>h'\<close>) and
  with any arguments. The invocation resolves the weak pointer to \<open>this\<close> before
  anything else. When no owner of the engine is left (the engine has been destroyed), it
  ends with the \<open>std::runtime_error\<close> that reports the engine gone, the heap is as it
  was, and no native function has been entered. Only otherwise is the native function
  entered, once, with the resolved engine \<open>this\<close> and the call's arguments converted
  in order; the invocation then owns the engine, as do the converted values.
\<close>

theorem registered_callback_resolves_engine_first:
  "v8_invoke natives h' (jsValue (fst (JsEngine_NewCallback h this callback))) args =
     Some (if use_count (h' this) = 0
           then \<lparr>inv_outcome =
                    Throws (RuntimeError ''Oops, our JsEngine is gone, how did that happen?''),
                  inv_heap = h',
                  native_calls = []\<rparr>
           else \<lparr>inv_outcome =
                    natives callback this (map (\<lambda>v. \<lparr>jsEngine = this, jsValue = v\<rparr>) args),
                  inv_heap =
                    h'(this := (h' this)\<lparr>use_count := use_count (h' this) + 1 + length args\<rparr>),
                  native_calls =
                    [(callback, this, map (\<lambda>v. \<lparr>jsEngine = this, jsValue = v\<rparr>) args)]\<rparr>)"
proof (cases "use_count (h' this) = 0")
  case True
  then show ?thesis
    by (simp add: JsEngine_NewCallback_def CallbackBridge_invoke_def FromArguments_expired)
next
  case False
  then show ?thesis
    by (simp add: JsEngine_NewCallback_def CallbackBridge_invoke_def FromArguments_live
        JsEngine_ConvertArguments_def ConvertArguments_loop_eq)
qed

theorem registered_callback_resolves_engine_first_witness:
  "use_count (snd (JsEngine_NewCallback sample_heap 5 42) 5) = 2
   \<and> map_option inv_outcome
        (v8_invoke sample_natives (snd (JsEngine_NewCallback sample_heap 5 42))
           (jsValue (fst (JsEngine_NewCallback sample_heap 5 42))) [V8Value ''a'', V8Value ''b''])
      = Some (Returns (V8Value ''2''))
   \<and> map_option native_calls
        (v8_invoke sample_natives (snd (JsEngine_NewCallback sample_heap 5 42))
           (jsValue (fst (JsEngine_NewCallback sample_heap 5 42))) [V8Value ''a'', V8Value ''b''])
      = Some [(42, 5, [\<lparr>jsEngine = 5, jsValue = V8Value ''a''\<rparr>,
                       \<lparr>jsEngine = 5, jsValue = V8Value ''b''\<rparr>])]
   \<and> v8_invoke sample_natives
        (shared_ptr_release (shared_ptr_release (snd (JsEngine_NewCallback sample_heap 5 42)) 5) 5)
        (jsValue (fst (JsEngine_NewCallback sample_heap 5 42))) [V8Value ''a'', V8Value ''b'']
      = Some \<lparr>inv_outcome =
                 Throws (RuntimeError ''Oops, our JsEngine is gone, how did that happen?''),
               inv_heap =
                 shared_ptr_release
                   (shared_ptr_release (snd (JsEngine_NewCallback sample_heap 5 42)) 5) 5,
               native_calls = []\<rparr>"
proof -
  have live: "use_count (snd (JsEngine_NewCallback sample_heap 5 42) 5) = 2"
    by (simp add: JsEngine_NewCallback_def sample_heap_def)
  have gone: "use_count (shared_ptr_release
                (shared_ptr_release (snd (JsEngine_NewCallback sample_heap 5 42)) 5) 5 5) = 0"
    by (simp add: JsEngine_NewCallback_def sample_heap_def shared_ptr_release_def)
  have answer: "sample_natives 42 5 [\<lparr>jsEngine = 5, jsValue = V8Value ''a''\<rparr>,
                                    \<lparr>jsEngine = 5, jsValue = V8Value ''b''\<rparr>]
                  = Returns (V8Value ''2'')"
    by (simp add: sample_natives_def show_int_def decimal.simps digit_def)
  show ?thesis
    using live gone answer
      registered_callback_resolves_engine_first [of sample_natives
        "snd (JsEngine_NewCallback sample_heap 5 42)" sample_heap 5 42
        "[V8Value ''a'', V8Value ''b'']"]
      registered_callback_resolves_engine_first [of sample_natives
        "shared_ptr_release (shared_ptr_release (snd (JsEngine_NewCallback sample_heap 5 42)) 5) 5"
        sample_heap 5 42 "[V8Value ''a'', V8Value ''b'']"]
    by simp
qed

subsection \<open>Collaborators\<close>

text \<open>
  Claim C9. For the file system, the web request and the error callback alike: the
  getter, finding the slot empty, stores a default implementation and returns it;
  finding it filled, returns what is stored and changes nothing, so a second access
  gives the same answer as the first. The setter throws a \<open>std::runtime_error\<close> for a
  null pointer and leaves the engine as it was; any other pointer is stored.
\<close>

theorem collaborators_lazy_and_never_null:
  "JsEngine_GetFileSystem this =
     (if fileSystem this = None
      then (Some DefaultFileSystem, this\<lparr>fileSystem := Some DefaultFileSystem\<rparr>)
      else (fileSystem this, this))
   \<and> JsEngine_GetFileSystem (snd (JsEngine_GetFileSystem this))
       = (fst (JsEngine_GetFileSystem this), snd (JsEngine_GetFileSystem this))
   \<and> JsEngine_SetFileSystem this None = (Throws (RuntimeError ''FileSystem cannot be null''), this)
   \<and> JsEngine_SetFileSystem this (Some fs) = (Returns (), this\<lparr>fileSystem := Some fs\<rparr>)
   \<and> JsEngine_GetWebRequest this =
     (if webRequest this = None
      then (Some DefaultWebRequest, this\<lparr>webRequest := Some DefaultWebRequest\<rparr>)
      else (webRequest this, this))
   \<and> JsEngine_GetWebRequest (snd (JsEngine_GetWebRequest this))
       = (fst (JsEngine_GetWebRequest this), snd (JsEngine_GetWebRequest this))
   \<and> JsEngine_SetWebRequest this None = (Throws (RuntimeError ''WebRequest cannot be null''), this)
   \<and> JsEngine_SetWebRequest this (Some wr) = (Returns (), this\<lparr>webRequest := Some wr\<rparr>)
   \<and> JsEngine_GetErrorCallback this =
     (if errorCallback this = None
      then (Some DefaultErrorCallback, this\<lparr>errorCallback := Some DefaultErrorCallback\<rparr>)
      else (errorCallback this, this))
   \<and> JsEngine_GetErrorCallback (snd (JsEngine_GetErrorCallback this))
       = (fst (JsEngine_GetErrorCallback this), snd (JsEngine_GetErrorCallback this))
   \<and> JsEngine_SetErrorCallback this None
       = (Throws (RuntimeError ''ErrorCallback cannot be null''), this)
   \<and> JsEngine_SetErrorCallback this (Some ec) = (Returns (), this\<lparr>errorCallback := Some ec\<rparr>)"
  by (simp add: JsEngine_GetFileSystem_def JsEngine_SetFileSystem_def JsEngine_GetWebRequest_def
      JsEngine_SetWebRequest_def JsEngine_GetErrorCallback_def JsEngine_SetErrorCallback_def)

theorem collaborators_lazy_and_never_null_witness:
  "JsEngine_GetFileSystem \<lparr>fileSystem = None, webRequest = None, errorCallback = None\<rparr>
     = (Some DefaultFileSystem,
        \<lparr>fileSystem = Some DefaultFileSystem, webRequest = None, errorCallback = None\<rparr>)
   \<and> JsEngine_SetWebRequest
        \<lparr>fileSystem = None, webRequest = Some (HostWebRequest 1), errorCallback = None\<rparr> None
     = (Throws (RuntimeError ''WebRequest cannot be null''),
        \<lparr>fileSystem = None, webRequest = Some (HostWebRequest 1), errorCallback = None\<rparr>)
   \<and> JsEngine_SetErrorCallback
        \<lparr>fileSystem = None, webRequest = None, errorCallback = None\<rparr> (Some (HostErrorCallback 3))
     = (Returns (),
        \<lparr>fileSystem = None, webRequest = None, errorCallback = Some (HostErrorCallback 3)\<rparr>)"
  using collaborators_lazy_and_never_null
      [of "\<lparr>fileSystem = None, webRequest = None, errorCallback = None\<rparr>" "DefaultFileSystem"
          "DefaultWebRequest" "HostErrorCallback 3"]
    collaborators_lazy_and_never_null
      [of "\<lparr>fileSystem = None, webRequest = Some (HostWebRequest 1), errorCallback = None\<rparr>"
          "DefaultFileSystem" "DefaultWebRequest" "DefaultErrorCallback"]
  by simp

end
